theory Spec2Isabelle
  imports Complex_Main "HOL-Library.Char_ord" "HOL-Library.List_Lexorder"
begin

section \<open>Data model\<close>

text \<open>
  The program is one Streamlit script, \<^verbatim>\<open>streamlit_app.py\<close>. Its state is the
  framework's \<^verbatim>\<open>st.session_state\<close>; its operations are the blocks that run when a form
  is submitted or a button is pressed. Each block is embedded as a function that takes the
  session state and the values of the widgets it reads, and returns the new state together
  with the messages it shows.

  Python strings are \<^typ>\<open>string\<close>, a character standing for a code point below 256.
\<close>

text \<open>
  A Python value as \<^verbatim>\<open>json.loads\<close> returns it: \<^verbatim>\<open>None\<close>, a bool, an int, a finite
  float, the float \<^verbatim>\<open>nan\<close>, a string, a list, or a dict, whose keys are strings, are
  distinct and are kept in document order. \<^verbatim>\<open>nan\<close> is what the parser returns for the
  constant \<^verbatim>\<open>NaN\<close>, which it accepts although the JSON grammar has no such constant; it
  returns one and the same object every time. The infinities and the negative zero are
  left out.

  The fields of the data classes hold such values: the classes declare \<^verbatim>\<open>str\<close> and
  \<^verbatim>\<open>float\<close>, and Python does not check a value against the declaration when it builds
  an instance.
\<close>

datatype json =
    JNull
  | JBool bool
  | JInt int
  | JFloat real
  | JNaN
  | JStr string
  | JArr "json list"
  | JObj "(string \<times> json) list"

text \<open>The class \<^verbatim>\<open>RubricStatus\<close>: three string constants.\<close>

definition PENDING :: string where
  "PENDING = ''pending''"

definition MET :: string where
  "MET = ''met''"

definition NOT_MET :: string where
  "NOT_MET = ''not_met''"

text \<open>
  The data classes. The field \<^verbatim>\<open>id\<close> of a rubric item is \<open>id'\<close> and the field
  \<^verbatim>\<open>text\<close> of a transcript entry is \<open>text'\<close>, the plain names being taken.
\<close>

record RubricItem =
  id' :: json
  skill :: json
  status :: json

record TranscriptEntry =
  speaker :: json
  text' :: json
  ts :: json

record UserDetails =
  name :: json
  phone :: json
  designation :: json

text \<open>
  The dictionary stored in \<^verbatim>\<open>suggested_update\<close>, with its keys \<^verbatim>\<open>skillId\<close>,
  \<^verbatim>\<open>status\<close> and \<^verbatim>\<open>reasoning\<close>. The skill is an option of a selectbox over the ids
  of the rubric, so it is a value like them (\<^verbatim>\<open>None\<close> when the rubric is empty); the
  status is one of two string constants and the reasoning is typed text.
\<close>

record Suggestion =
  skillId :: json
  su_status :: string
  reasoning :: string

text \<open>
  The keys the script sets on \<^verbatim>\<open>st.session_state\<close> when it initialises (lines 95 to 105).
  The start time is a value of \<^verbatim>\<open>time.time()\<close>, a finite float.
\<close>

record session_state =
  session_status :: string
  transcript :: "TranscriptEntry list"
  rubric :: "RubricItem list"
  suggested_update :: "Suggestion option"
  saved_session :: "json option"
  start_time :: "real option"
  duration_seconds :: "int option"
  user_details :: "UserDetails option"
  summary_text :: "string option"

definition INITIAL_RUBRIC :: "RubricItem list" where
  "INITIAL_RUBRIC =
    [\<lparr>id' = JStr ''hand_hygiene'', skill = JStr ''Hand hygiene'', status = JStr PENDING\<rparr>,
     \<lparr>id' = JStr ''introduce_self'', skill = JStr ''Introduces self to patient'',
        status = JStr PENDING\<rparr>,
     \<lparr>id' = JStr ''explain_procedure'', skill = JStr ''Explains procedure'', status = JStr PENDING\<rparr>,
     \<lparr>id' = JStr ''obtain_consent'', skill = JStr ''Obtains consent'', status = JStr PENDING\<rparr>,
     \<lparr>id' = JStr ''maintain_privacy'', skill = JStr ''Maintains privacy and dignity'',
        status = JStr PENDING\<rparr>]"

definition initial_state :: session_state where
  "initial_state =
    \<lparr>session_status = ''idle'', transcript = [], rubric = INITIAL_RUBRIC,
     suggested_update = None, saved_session = None, start_time = None,
     duration_seconds = None, user_details = None, summary_text = None\<rparr>"

text \<open>
  The exceptions that the embedded blocks raise or catch, and what a block shows to the
  user: \<^verbatim>\<open>st.success\<close>, \<^verbatim>\<open>st.warning\<close>, and the one \<^verbatim>\<open>st.error\<close> of the script,
  which carries the exception caught while loading.
\<close>

datatype exn =
    JSONDecodeError
  | UnicodeDecodeError
  | AttributeError
  | TypeError

datatype report =
    Success string
  | Warning string
  | Error exn

section \<open>Strings, lists and values of Python\<close>

text \<open>\<^verbatim>\<open>sep.join(xs)\<close> on strings.\<close>

fun join :: "string \<Rightarrow> string list \<Rightarrow> string" where
  "join sep [] = []"
| "join sep [x] = x"
| "join sep (x # y # ys) = x @ sep @ join sep (y # ys)"

text \<open>
  \<^verbatim>\<open>sep.join(xs)\<close> on values: an item that is not a string raises \<^verbatim>\<open>TypeError\<close>.
\<close>

fun strs_of :: "json list \<Rightarrow> exn + string list" where
  "strs_of [] = Inr []"
| "strs_of (JStr s # xs) = (case strs_of xs of Inl e \<Rightarrow> Inl e | Inr ys \<Rightarrow> Inr (s # ys))"
| "strs_of (_ # xs) = Inl TypeError"

definition py_join :: "string \<Rightarrow> json list \<Rightarrow> exn + string" where
  "py_join sep xs = (case strs_of xs of Inl e \<Rightarrow> Inl e | Inr ys \<Rightarrow> Inr (join sep ys))"

text \<open>
  A value in an f-string, \<^verbatim>\<open>f"{v}"\<close>: a string stands for itself, any other value for
  the text that \<^verbatim>\<open>str(v)\<close> gives (\<^verbatim>\<open>None\<close>, \<^verbatim>\<open>5\<close>, \<^verbatim>\<open>[1, 'a']\<close>). That text is
  Python's own; it is the parameter \<open>py_str\<close> of the blocks that format a value.
\<close>

definition py_format :: "(json \<Rightarrow> string) \<Rightarrow> json \<Rightarrow> string" where
  "py_format py_str v = (case v of JStr s \<Rightarrow> s | _ \<Rightarrow> py_str v)"

text \<open>
  The comparison \<^verbatim>\<open>a == b\<close> of two values. Numbers are compared by their value,
  whether bool, int or float; lists item by item; dicts key by key, in any order; values
  of different kinds are unequal. \<^verbatim>\<open>nan\<close> differs from every number and from itself,
  but a list or a dict takes an item for equal when it is the same object, so \<^verbatim>\<open>nan\<close>
  inside a list or a dict equals \<^verbatim>\<open>nan\<close> at the same place. \<open>canon\<close> brings a value to
  one form among its equals: a bool or an integral float becomes the int, and the entries
  of a dict are sorted by key.
\<close>

primrec canon :: "json \<Rightarrow> json" where
  "canon JNull = JNull"
| "canon (JBool b) = JInt (if b then 1 else 0)"
| "canon (JInt i) = JInt i"
| "canon (JFloat x) = (if x = of_int \<lfloor>x\<rfloor> then JInt \<lfloor>x\<rfloor> else JFloat x)"
| "canon JNaN = JNaN"
| "canon (JStr s) = JStr s"
| "canon (JArr xs) = JArr (map canon xs)"
| "canon (JObj kvs) = JObj (sort_key fst (map (map_prod id canon) kvs))"

definition py_eq :: "json \<Rightarrow> json \<Rightarrow> bool" where
  "py_eq a b = (a \<noteq> JNaN \<and> b \<noteq> JNaN \<and> canon a = canon b)"

text \<open>
  The slice \<^verbatim>\<open>xs[i:]\<close>: a negative start counts from the end, and a start outside the
  list is clamped to it.
\<close>

definition slice_from :: "int \<Rightarrow> 'a list \<Rightarrow> 'a list" where
  "slice_from i xs =
    (let n = int (length xs);
         start = (if i < 0 then max (n + i) 0 else min i n)
     in drop (nat start) xs)"

text \<open>
  \<^verbatim>\<open>str.isspace\<close> on the code points below 256, and \<^verbatim>\<open>str.strip()\<close>, which removes
  the white space at both ends.
\<close>

definition is_space :: "char \<Rightarrow> bool" where
  "is_space c = (of_char c \<in> {9, 10, 11, 12, 13, 28, 29, 30, 31, 32, 133, 160 :: nat})"

definition strip :: "string \<Rightarrow> string" where
  "strip s = rev (dropWhile is_space (rev (dropWhile is_space s)))"

section \<open>The summary\<close>

text \<open>
  \<^verbatim>\<open>generate_local_summary(transcript, rubric)\<close>, lines 71 to 89. The function reads
  \<^verbatim>\<open>st.session_state['user_details']\<close> for the greeting, so the session state is an
  argument here. The key is always present once the script has initialised, and an
  instance of the data class is true, so the condition of line 81 is that the value is
  not \<^verbatim>\<open>None\<close>. The list \<^verbatim>\<open>lines\<close> grows by one \<^verbatim>\<open>append\<close> at a time; a
  \<^verbatim>\<open>join\<close> that raises ends the function with its exception.
\<close>

definition generate_local_summary ::
  "(json \<Rightarrow> string) \<Rightarrow> session_state \<Rightarrow> TranscriptEntry list \<Rightarrow> RubricItem list \<Rightarrow> exn + string" where
  "generate_local_summary py_str st tr rb =
    (let strengths = map skill (filter (\<lambda>r. status r = JStr MET) rb);
         needs = map skill (filter (\<lambda>r. status r = JStr NOT_MET) rb);
         student_lines = map text' (filter (\<lambda>t. speaker t = JStr ''user'') tr);
         recent = (if length student_lines \<ge> 1 then slice_from (- 3) student_lines else []);
         lines0 = [];
         lines1 = lines0 @
           [''Dear '' @ (case user_details st of
                           Some u \<Rightarrow> py_format py_str (name u)
                         | None \<Rightarrow> ''Student'') @ '','']
     in
     (case (if strengths \<noteq> []
            then (case py_join '', '' strengths of
                    Inl e \<Rightarrow> Inl e
                  | Inr joined \<Rightarrow> Inr (lines1 @ [''Strengths: '' @ joined @ ''.'']))
            else Inr lines1) of
        Inl e \<Rightarrow> Inl e
      | Inr lines2 \<Rightarrow>
     (case (if needs \<noteq> []
            then (case py_join '', '' needs of
                    Inl e \<Rightarrow> Inl e
                  | Inr joined \<Rightarrow> Inr (lines2 @ [''Areas for improvement: '' @ joined @ ''.'']))
            else Inr lines2) of
        Inl e \<Rightarrow> Inl e
      | Inr lines3 \<Rightarrow>
     (case (if recent \<noteq> []
            then (case py_join '' / '' recent of
                    Inl e \<Rightarrow> Inl e
                  | Inr joined \<Rightarrow> Inr (lines3 @ [''Notes from the session: '' @ joined]))
            else Inr lines3) of
        Inl e \<Rightarrow> Inl e
      | Inr lines4 \<Rightarrow>
     (let lines5 = lines4 @
            [''Suggestions: Practice the identified areas; follow checklist steps clearly during the examination.'']
      in Inr (join ''\<newline>\<newline>'' lines5))))))"

section \<open>Saving and loading a session\<close>

text \<open>
  \<^verbatim>\<open>save_session_to_bytes\<close> is \<^verbatim>\<open>json.dumps\<close> followed by the UTF-8 encoding, and
  \<^verbatim>\<open>load_session_from_bytes\<close> is the UTF-8 decoding followed by \<^verbatim>\<open>json.loads\<close>: both
  are the Python library. The embedding starts and ends at the parsed document. Saving
  produces the dictionary \<^verbatim>\<open>session_dump\<close>; loading receives what
  \<^verbatim>\<open>load_session_from_bytes\<close> returned, a document or the exception it raised.
\<close>

text \<open>\<^verbatim>\<open>dataclasses.asdict\<close> on the three data classes.\<close>

definition asdict_RubricItem :: "RubricItem \<Rightarrow> json" where
  "asdict_RubricItem r = JObj [(''id'', id' r), (''skill'', skill r), (''status'', status r)]"

definition asdict_TranscriptEntry :: "TranscriptEntry \<Rightarrow> json" where
  "asdict_TranscriptEntry t = JObj [(''speaker'', speaker t), (''text'', text' t), (''ts'', ts t)]"

definition asdict_UserDetails :: "UserDetails \<Rightarrow> json" where
  "asdict_UserDetails u =
    JObj [(''name'', name u), (''phone'', phone u), (''designation'', designation u)]"

text \<open>The dictionary built by the button "Download session JSON", lines 129 to 134.\<close>

definition session_dump :: "session_state \<Rightarrow> json" where
  "session_dump s =
    JObj [(''user_details'',
             (case user_details s of Some u \<Rightarrow> asdict_UserDetails u | None \<Rightarrow> JNull)),
          (''transcript'', JArr (map asdict_TranscriptEntry (transcript s))),
          (''rubric'', JArr (map asdict_RubricItem (rubric s))),
          (''summary'', (case summary_text s of Some t \<Rightarrow> JStr t | None \<Rightarrow> JNull))]"

text \<open>
  \<^verbatim>\<open>data.get(key, default)\<close>: only a dict has the method, any other value raises
  \<^verbatim>\<open>AttributeError\<close>.
\<close>

definition dict_get :: "json \<Rightarrow> string \<Rightarrow> json \<Rightarrow> exn + json" where
  "dict_get d k dflt =
    (case d of
       JObj kvs \<Rightarrow> (case map_of kvs k of Some v \<Rightarrow> Inr v | None \<Rightarrow> Inr dflt)
     | _ \<Rightarrow> Inl AttributeError)"

text \<open>
  What a \<^verbatim>\<open>for\<close> clause iterates over: the elements of a list, the characters of a
  string, the keys of a dict; the other values are not iterable.
\<close>

definition py_iter :: "json \<Rightarrow> exn + json list" where
  "py_iter v =
    (case v of
       JArr xs \<Rightarrow> Inr xs
     | JStr cs \<Rightarrow> Inr (map (\<lambda>c. JStr [c]) cs)
     | JObj kvs \<Rightarrow> Inr (map (\<lambda>kv. JStr (fst kv)) kvs)
     | _ \<Rightarrow> Inl TypeError)"

text \<open>The truth value of a value, as \<^verbatim>\<open>if ud:\<close> tests it.\<close>

definition truthy :: "json \<Rightarrow> bool" where
  "truthy v =
    (case v of
       JNull \<Rightarrow> False
     | JBool b \<Rightarrow> b
     | JInt i \<Rightarrow> i \<noteq> 0
     | JFloat x \<Rightarrow> x \<noteq> 0
     | JNaN \<Rightarrow> True
     | JStr cs \<Rightarrow> cs \<noteq> []
     | JArr xs \<Rightarrow> xs \<noteq> []
     | JObj kvs \<Rightarrow> kvs \<noteq> [])"

text \<open>
  \<^verbatim>\<open>RubricItem(**r)\<close>, \<^verbatim>\<open>TranscriptEntry(**t)\<close> and \<^verbatim>\<open>UserDetails(**ud)\<close>. The
  argument of \<^verbatim>\<open>**\<close> has to be a dict; a key that is not a field and a required field
  that is absent both raise \<^verbatim>\<open>TypeError\<close>. Only \<^verbatim>\<open>status\<close> has a default. The
  values are stored as they are.
\<close>

definition RubricItem_kwargs :: "json \<Rightarrow> exn + RubricItem" where
  "RubricItem_kwargs v =
    (case v of
       JObj kvs \<Rightarrow>
         if \<not> list_all (\<lambda>k. k \<in> set [''id'', ''skill'', ''status'']) (map fst kvs)
         then Inl TypeError
         else (case (map_of kvs ''id'', map_of kvs ''skill'') of
                 (Some i, Some k) \<Rightarrow>
                   Inr \<lparr>id' = i, skill = k,
                        status = (case map_of kvs ''status'' of
                                    Some x \<Rightarrow> x
                                  | None \<Rightarrow> JStr PENDING)\<rparr>
               | _ \<Rightarrow> Inl TypeError)
     | _ \<Rightarrow> Inl TypeError)"

definition TranscriptEntry_kwargs :: "json \<Rightarrow> exn + TranscriptEntry" where
  "TranscriptEntry_kwargs v =
    (case v of
       JObj kvs \<Rightarrow>
         if \<not> list_all (\<lambda>k. k \<in> set [''speaker'', ''text'', ''ts'']) (map fst kvs)
         then Inl TypeError
         else (case (map_of kvs ''speaker'', map_of kvs ''text'', map_of kvs ''ts'') of
                 (Some p, Some x, Some n) \<Rightarrow> Inr \<lparr>speaker = p, text' = x, ts = n\<rparr>
               | _ \<Rightarrow> Inl TypeError)
     | _ \<Rightarrow> Inl TypeError)"

definition UserDetails_kwargs :: "json \<Rightarrow> exn + UserDetails" where
  "UserDetails_kwargs v =
    (case v of
       JObj kvs \<Rightarrow>
         if \<not> list_all (\<lambda>k. k \<in> set [''name'', ''phone'', ''designation'']) (map fst kvs)
         then Inl TypeError
         else (case (map_of kvs ''name'', map_of kvs ''phone'', map_of kvs ''designation'') of
                 (Some n, Some p, Some d) \<Rightarrow> Inr \<lparr>name = n, phone = p, designation = d\<rparr>
               | _ \<Rightarrow> Inl TypeError)
     | _ \<Rightarrow> Inl TypeError)"

text \<open>
  The list comprehension \<^verbatim>\<open>[C(**x) for x in xs]\<close>: the elements are built in order, and
  the first exception ends it.
\<close>

fun build_all :: "(json \<Rightarrow> exn + 'a) \<Rightarrow> json list \<Rightarrow> exn + 'a list" where
  "build_all f [] = Inr []"
| "build_all f (x # xs) =
    (case f x of
       Inl e \<Rightarrow> Inl e
     | Inr y \<Rightarrow> (case build_all f xs of Inl e \<Rightarrow> Inl e | Inr ys \<Rightarrow> Inr (y # ys)))"

definition comprehension :: "(json \<Rightarrow> exn + 'a) \<Rightarrow> json \<Rightarrow> exn + 'a list" where
  "comprehension f v = (case py_iter v of Inl e \<Rightarrow> Inl e | Inr xs \<Rightarrow> build_all f xs)"

text \<open>
  The block under \<^verbatim>\<open>if uploaded:\<close>, lines 114 to 126. Every statement of the
  \<^verbatim>\<open>try\<close> is a step; an exception at a step is caught by \<^verbatim>\<open>except Exception\<close>,
  which shows the error, and the assignments made before it stay.
\<close>

definition upload_handler :: "session_state \<Rightarrow> exn + json \<Rightarrow> session_state \<times> report list" where
  "upload_handler s loaded =
    (case loaded of
       Inl e \<Rightarrow> (s, [Error e])
     | Inr data \<Rightarrow>
    (case dict_get data ''transcript'' (JArr []) of
       Inl e \<Rightarrow> (s, [Error e])
     | Inr tv \<Rightarrow>
    (case comprehension TranscriptEntry_kwargs tv of
       Inl e \<Rightarrow> (s, [Error e])
     | Inr es \<Rightarrow>
    (let s1 = s\<lparr>transcript := es\<rparr> in
    (case dict_get data ''rubric'' (JArr []) of
       Inl e \<Rightarrow> (s1, [Error e])
     | Inr rv \<Rightarrow>
    (case comprehension RubricItem_kwargs rv of
       Inl e \<Rightarrow> (s1, [Error e])
     | Inr rs \<Rightarrow>
    (let s2 = s1\<lparr>rubric := rs\<rparr> in
    (case dict_get data ''user_details'' JNull of
       Inl e \<Rightarrow> (s2, [Error e])
     | Inr ud \<Rightarrow>
    (if truthy ud
     then (case UserDetails_kwargs ud of
             Inl e \<Rightarrow> (s2, [Error e])
           | Inr u \<Rightarrow>
               (s2\<lparr>user_details := Some u, session_status := ''ended''\<rparr>,
                [Success ''Session loaded from file.'']))
     else (s2\<lparr>session_status := ''ended''\<rparr>,
           [Success ''Session loaded from file.'']))))))))))"

section \<open>The forms and buttons\<close>

text \<open>
  The welcome form, lines 152 to 165. The number input yields an integer between 1 and 180.
  The script draws this form while \<^verbatim>\<open>user_details\<close> is not set and the rest of the
  page once it is; the upload and the download are in the sidebar, drawn in both cases.
\<close>

definition welcome_form ::
  "session_state \<Rightarrow> string \<Rightarrow> string \<Rightarrow> string \<Rightarrow> int \<Rightarrow> session_state \<times> report list" where
  "welcome_form s nm ph de duration =
    (if nm = [] then (s, [Warning ''Please enter name.''])
     else (s\<lparr>user_details := Some \<lparr>name = JStr nm, phone = JStr ph, designation = JStr de\<rparr>,
              duration_seconds := Some (duration * 60),
              session_status := ''idle''\<rparr>, []))"

text \<open>
  The form "add_transcript", lines 224 to 232: the speaker chosen, the text typed, and the
  value of \<^verbatim>\<open>now_ts()\<close>. Nothing is done and nothing is shown when the stripped text is
  empty.
\<close>

definition add_transcript ::
  "session_state \<Rightarrow> string \<Rightarrow> string \<Rightarrow> real \<Rightarrow> session_state \<times> report list" where
  "add_transcript s sp tx now =
    (if strip tx \<noteq> []
     then (s\<lparr>transcript := transcript s @
                [\<lparr>speaker = JStr sp, text' = JStr (strip tx), ts = JFloat now\<rparr>]\<rparr>,
           [Success ''Added.''])
     else (s, []))"

text \<open>A run of submissions of that form, each with its speaker, text and time.\<close>

fun add_transcript_all :: "session_state \<Rightarrow> (string \<times> string \<times> real) list \<Rightarrow> session_state" where
  "add_transcript_all s [] = s"
| "add_transcript_all s ((sp, tx, now) # cs) = add_transcript_all (fst (add_transcript s sp tx now)) cs"

text \<open>
  The rubric selectboxes, lines 240 to 250, assign a status by the position of the item in
  the list and are drawn for the items of the rubric only: they look no id up. The form
  "suggestion_form", lines 255 to 261, stores the suggestion; its skill is chosen among the
  ids of the rubric at that moment.
\<close>

definition propose_suggestion ::
  "session_state \<Rightarrow> json \<Rightarrow> string \<Rightarrow> string \<Rightarrow> session_state \<times> report list" where
  "propose_suggestion s skill_choice status_choice why =
    (s\<lparr>suggested_update :=
         Some \<lparr>skillId = skill_choice, su_status = status_choice, reasoning = why\<rparr>\<rparr>,
     [Success ''Suggestion created. Await user confirmation.''])"

text \<open>
  The loop of lines 270 to 272: every item whose id equals the suggestion's skill gets the
  suggested status.
\<close>

fun apply_suggestion :: "Suggestion \<Rightarrow> RubricItem list \<Rightarrow> RubricItem list" where
  "apply_suggestion su [] = []"
| "apply_suggestion su (r # rs) =
    (if py_eq (id' r) (skillId su) then r\<lparr>status := JStr (su_status su)\<rparr> else r)
    # apply_suggestion su rs"

text \<open>
  The two buttons of lines 263 to 281. They are drawn only while \<^verbatim>\<open>suggested_update\<close>
  is set: without a suggestion neither can be pressed, which is the result \<open>None\<close>.
\<close>

definition accept_suggestion ::
  "(json \<Rightarrow> string) \<Rightarrow> session_state \<Rightarrow> real \<Rightarrow> (session_state \<times> report list) option" where
  "accept_suggestion py_str s now =
    (case suggested_update s of
       None \<Rightarrow> None
     | Some su \<Rightarrow>
         Some (s\<lparr>rubric := apply_suggestion su (rubric s),
                 transcript := transcript s @
                   [\<lparr>speaker = JStr ''system'',
                     text' = JStr (''Suggestion accepted for '' @ py_format py_str (skillId su)),
                     ts = JFloat now\<rparr>],
                 suggested_update := None\<rparr>,
               [Success ''Suggestion accepted.'']))"

definition reject_suggestion ::
  "(json \<Rightarrow> string) \<Rightarrow> session_state \<Rightarrow> real \<Rightarrow> (session_state \<times> report list) option" where
  "reject_suggestion py_str s now =
    (case suggested_update s of
       None \<Rightarrow> None
     | Some su \<Rightarrow>
         Some (s\<lparr>transcript := transcript s @
                   [\<lparr>speaker = JStr ''system'',
                     text' = JStr (''Suggestion rejected for '' @ py_format py_str (skillId su)),
                     ts = JFloat now\<rparr>],
                 suggested_update := None\<rparr>,
               [Success ''Suggestion rejected.'']))"

text \<open>The button "Mark all pending as not met", lines 332 to 336.\<close>

fun resolve_pending :: "RubricItem list \<Rightarrow> RubricItem list" where
  "resolve_pending [] = []"
| "resolve_pending (r # rs) =
    (if status r = JStr PENDING then r\<lparr>status := JStr NOT_MET\<rparr> else r) # resolve_pending rs"

definition mark_all_pending :: "session_state \<Rightarrow> session_state \<times> report list" where
  "mark_all_pending s =
    (s\<lparr>rubric := resolve_pending (rubric s)\<rparr>, [Success ''Updated pending items.''])"

section \<open>Vocabulary of the specification\<close>

text \<open>
  The summary as the specification words it: up to the last \<open>n\<close> elements of a list (all
  of them when there are no more than \<open>n\<close>), and the sections of the text, each of the
  three middle ones present only when its list is not empty.
\<close>

definition last_up_to :: "nat \<Rightarrow> 'a list \<Rightarrow> 'a list" where
  "last_up_to n xs = (if length xs \<le> n then xs else rev (take n (rev xs)))"


text \<open>A block reports a failure when it shows a warning or an error.\<close>

definition reports_failure :: "report list \<Rightarrow> bool" where
  "reports_failure rs = list_ex (\<lambda>r. case r of Success _ \<Rightarrow> False | _ \<Rightarrow> True) rs"

text \<open>
  The transcript and the rubric that a loaded document describes: the two list
  comprehensions of the upload block, each taken by itself.
\<close>

definition document_transcript :: "exn + json \<Rightarrow> exn + TranscriptEntry list" where
  "document_transcript loaded =
    (case loaded of
       Inl e \<Rightarrow> Inl e
     | Inr data \<Rightarrow>
         (case dict_get data ''transcript'' (JArr []) of
            Inl e \<Rightarrow> Inl e
          | Inr tv \<Rightarrow> comprehension TranscriptEntry_kwargs tv))"

definition document_rubric :: "exn + json \<Rightarrow> exn + RubricItem list" where
  "document_rubric loaded =
    (case loaded of
       Inl e \<Rightarrow> Inl e
     | Inr data \<Rightarrow>
         (case dict_get data ''rubric'' (JArr []) of
            Inl e \<Rightarrow> Inl e
          | Inr rv \<Rightarrow> comprehension RubricItem_kwargs rv))"

text \<open>
  An object that lacks one of the required fields, and a document whose list under
  \<open>key\<close> holds such an object.
\<close>

definition lacks_field :: "string list \<Rightarrow> json \<Rightarrow> bool" where
  "lacks_field required x =
    (case x of JObj fs \<Rightarrow> \<not> list_all (\<lambda>k. k \<in> set (map fst fs)) required | _ \<Rightarrow> False)"

definition entry_lacking :: "string \<Rightarrow> string list \<Rightarrow> json \<Rightarrow> bool" where
  "entry_lacking key required data =
    (case dict_get data key (JArr []) of
       Inr (JArr xs) \<Rightarrow> list_ex (lacks_field required) xs
     | _ \<Rightarrow> False)"

text \<open>
  A document that no valid JSON text denotes: one that holds \<^verbatim>\<open>nan\<close>. The grammar of
  JSON has no constant for it and no JSON number has that value, so the payload of such a
  document spells the constant \<^verbatim>\<open>NaN\<close>.
\<close>

primrec has_nan :: "json \<Rightarrow> bool" where
  "has_nan JNull = False"
| "has_nan (JBool b) = False"
| "has_nan (JInt i) = False"
| "has_nan (JFloat x) = False"
| "has_nan JNaN = True"
| "has_nan (JStr s) = False"
| "has_nan (JArr xs) = list_ex id (map has_nan xs)"
| "has_nan (JObj kvs) = list_ex snd (map (map_prod id has_nan) kvs)"

text \<open>
  A rubric item of a document that carries \<^verbatim>\<open>id\<close> and \<^verbatim>\<open>skill\<close> and nothing else,
  and the record restored from an item: the one with its id and skill.
\<close>

definition omits_status :: "json \<Rightarrow> bool" where
  "omits_status x =
    (case x of
       JObj fs \<Rightarrow> map_of fs ''id'' \<noteq> None \<and> map_of fs ''skill'' \<noteq> None \<and>
                 list_all (\<lambda>k. k = ''id'' \<or> k = ''skill'') (map fst fs)
     | _ \<Rightarrow> False)"

definition restored_from :: "json \<Rightarrow> RubricItem \<Rightarrow> bool" where
  "restored_from x r =
    (dict_get x ''id'' JNull = Inr (id' r) \<and> dict_get x ''skill'' JNull = Inr (skill r))"

text \<open>
  The ids of a rubric are unique when no two of them are equal as Python compares them;
  two ids that are both \<^verbatim>\<open>nan\<close> count as equal here.
\<close>

definition unique_ids :: "RubricItem list \<Rightarrow> bool" where
  "unique_ids rb = distinct (map (canon \<circ> id') rb)"

section \<open>Example sessions\<close>

text \<open>
  In the examples every value that is formatted is a string, so the text of no other value
  is asked for; they pass a function that gives the empty text.
\<close>

definition no_text :: "json \<Rightarrow> string" where
  "no_text v = []"

text \<open>Two participants who have filled in the welcome form.\<close>

definition alice_state :: session_state where
  "alice_state = fst (welcome_form initial_state ''Alice'' ''555'' ''Nurse'' 10)"

definition bob_state :: session_state where
  "bob_state = fst (welcome_form initial_state ''Bob'' ''777'' ''Student'' 10)"

text \<open>The rubric and the transcript of the specification's summary scenario.\<close>

definition scenario_rubric :: "RubricItem list" where
  "scenario_rubric =
    [\<lparr>id' = JStr ''a'', skill = JStr ''Hand hygiene'', status = JStr ''met''\<rparr>,
     \<lparr>id' = JStr ''b'', skill = JStr ''Consent'', status = JStr ''not_met''\<rparr>]"

definition scenario_transcript :: "TranscriptEntry list" where
  "scenario_transcript = [\<lparr>speaker = JStr ''user'', text' = JStr ''Hi doctor'', ts = JInt 1\<rparr>]"

definition scenario_state :: session_state where
  "scenario_state = alice_state\<lparr>transcript := scenario_transcript, rubric := scenario_rubric\<rparr>"

text \<open>A rubric with two pending items and one that is met.\<close>

definition mixed_rubric :: "RubricItem list" where
  "mixed_rubric =
    [\<lparr>id' = JStr ''a'', skill = JStr ''Hand hygiene'', status = JStr ''pending''\<rparr>,
     \<lparr>id' = JStr ''b'', skill = JStr ''Consent'', status = JStr ''met''\<rparr>,
     \<lparr>id' = JStr ''c'', skill = JStr ''Privacy'', status = JStr ''pending''\<rparr>]"

text \<open>
  A rubric as a document can bring it in: the id of the first item is the int 1, the id of
  the second is \<^verbatim>\<open>nan\<close>.
\<close>

definition numbered_rubric :: "RubricItem list" where
  "numbered_rubric =
    [\<lparr>id' = JInt 1, skill = JStr ''Hand hygiene'', status = JStr ''pending''\<rparr>,
     \<lparr>id' = JNaN, skill = JStr ''Consent'', status = JStr ''pending''\<rparr>]"

text \<open>
  Documents: one whose transcript is well formed and whose rubric item has no skill, the
  same with \<^verbatim>\<open>null\<close> for the time stamp, one whose transcript entry has no text, one
  whose rubric items have no status (the second with a number for its id), one whose user
  details have a name only, one with another rubric than the initial one, and one with
  \<^verbatim>\<open>NaN\<close> for a time stamp.
\<close>

definition bad_rubric_document :: json where
  "bad_rubric_document =
    JObj [(''transcript'',
            JArr [JObj [(''speaker'', JStr ''user''), (''text'', JStr ''Hi doctor''), (''ts'', JInt 1)]]),
          (''rubric'', JArr [JObj [(''id'', JStr ''a'')]])]"

definition null_ts_document :: json where
  "null_ts_document =
    JObj [(''transcript'',
            JArr [JObj [(''speaker'', JStr ''user''), (''text'', JStr ''Hi doctor''), (''ts'', JNull)]]),
          (''rubric'', JArr [JObj [(''id'', JStr ''a'')]])]"

definition no_text_document :: json where
  "no_text_document =
    JObj [(''transcript'', JArr [JObj [(''speaker'', JStr ''user''), (''ts'', JInt 1)]]),
          (''rubric'', JArr [])]"

definition no_status_document :: json where
  "no_status_document =
    JObj [(''user_details'', JNull),
          (''transcript'', JArr []),
          (''rubric'', JArr [JObj [(''id'', JStr ''a''), (''skill'', JStr ''Hand hygiene'')],
                            JObj [(''skill'', JStr ''Consent''), (''id'', JInt 7)]])]"

definition bad_user_document :: json where
  "bad_user_document =
    JObj [(''user_details'', JObj [(''name'', JStr ''Alice'')]),
          (''transcript'', JArr []),
          (''rubric'', JArr [JObj [(''id'', JStr ''a''), (''skill'', JStr ''Hand hygiene''),
                                  (''status'', JStr ''met'')]])]"

definition other_rubric_document :: json where
  "other_rubric_document =
    JObj [(''transcript'', JArr []),
          (''rubric'', JArr [JObj [(''id'', JStr ''consent''), (''skill'', JStr ''Consent'')]])]"

definition nan_document :: json where
  "nan_document =
    JObj [(''transcript'',
            JArr [JObj [(''speaker'', JStr ''user''), (''text'', JStr ''Hi doctor''), (''ts'', JNaN)]]),
          (''rubric'', JArr [])]"

text \<open>
  A suggestion whose skill is no longer in the rubric: it was proposed for an item of the
  initial rubric, and a document with another rubric was loaded before it was accepted.
\<close>

definition stale_suggestion_state :: session_state where
  "stale_suggestion_state =
    fst (upload_handler
           (fst (propose_suggestion alice_state (JStr ''hand_hygiene'') NOT_MET ''observed lapse''))
           (Inr other_rubric_document))"

section \<open>Lemmas\<close>

subsection \<open>Lists, slices and values\<close>



lemma last_up_to_length: "length (last_up_to n xs) = min n (length xs)"
  by (simp add: last_up_to_def)

lemma last_up_to_suffix: "\<exists>ys. xs = ys @ last_up_to n xs"
proof (cases "length xs \<le> n")
  case True
  then show ?thesis by (simp add: last_up_to_def)
next
  case False
  then have "last_up_to n xs = drop (length xs - n) xs"
    by (simp add: last_up_to_def rev_take)
  then have "xs = take (length xs - n) xs @ last_up_to n xs"
    by simp
  then show ?thesis ..
qed


lemma py_format_str: "py_format f (JStr s) = s"
  by (simp add: py_format_def)

lemma py_eq_str: "py_eq (JStr a) (JStr b) \<longleftrightarrow> a = b"
  by (simp add: py_eq_def)

lemma py_eq_canon: "py_eq a b \<Longrightarrow> canon a = canon b"
  by (simp add: py_eq_def)

subsection \<open>The values of Python, on examples\<close>

lemma strip_examples:
  "strip [CHR 0x09, CHR 0x0A, CHR 0x0B, CHR 0x0C, CHR 0x0D, CHR 0x1C, CHR 0x1D, CHR 0x1E,
          CHR 0x1F, CHR 0x20, CHR 0x85, CHR 0xA0] = []"
  "strip [CHR 0x1B] = [CHR 0x1B]"
  "strip ''  a b  '' = ''a b''"
  by (simp_all add: strip_def is_space_def)

lemma truthy_examples:
  "\<not> truthy JNull" "\<not> truthy (JBool False)" "\<not> truthy (JInt 0)" "\<not> truthy (JFloat 0)"
  "\<not> truthy (JStr [])" "\<not> truthy (JArr [])" "\<not> truthy (JObj [])"
  "truthy JNaN" "truthy (JStr ''0'')" "truthy (JArr [JInt 0])" "truthy (JBool True)"
  by (simp_all add: truthy_def)

lemma py_eq_examples:
  "py_eq (JBool True) (JFloat 1)" "py_eq (JInt 1) (JFloat 1)" "\<not> py_eq (JFloat (3 / 2)) (JInt 1)"
  "\<not> py_eq JNaN JNaN" "py_eq (JArr [JNaN]) (JArr [JNaN])"
  "\<not> py_eq (JStr ''1'') (JInt 1)" "\<not> py_eq JNull (JInt 0)"
  "py_eq (JArr [JInt 1, JArr [JBool True]]) (JArr [JFloat 1, JArr [JInt 1]])"
  "py_eq (JObj [(''a'', JInt 1), (''b'', JInt 2)]) (JObj [(''b'', JInt 2), (''a'', JFloat 1)])"
  "\<not> py_eq (JObj [(''a'', JInt 1)]) (JObj [(''a'', JInt 1), (''b'', JInt 2)])"
  by (simp_all add: py_eq_def)

lemma py_iter_examples:
  "py_iter (JStr []) = Inr []" "py_iter (JStr ''ab'') = Inr [JStr ''a'', JStr ''b'']"
  "py_iter (JObj [(''a'', JInt 1)]) = Inr [JStr ''a'']" "py_iter (JInt 5) = Inl TypeError"
  "py_iter JNull = Inl TypeError"
  by (simp_all add: py_iter_def)

lemma upload_examples:
  "upload_handler s (Inr (JArr [])) = (s, [Error AttributeError])"
  "upload_handler s (Inr (JObj [(''transcript'', JNull)])) = (s, [Error TypeError])"
  "upload_handler s (Inr (JObj [(''user_details'', JInt 0)])) =
     (s\<lparr>transcript := [], rubric := [], session_status := ''ended''\<rparr>,
      [Success ''Session loaded from file.''])"
  "upload_handler s (Inr (JObj [(''user_details'', JStr ''x'')])) =
     (s\<lparr>transcript := [], rubric := []\<rparr>, [Error TypeError])"
  by (simp_all add: upload_handler_def dict_get_def comprehension_def py_iter_def truthy_def
      UserDetails_kwargs_def)

subsection \<open>Building records from a document\<close>

lemma TranscriptEntry_kwargs_asdict: "TranscriptEntry_kwargs (asdict_TranscriptEntry t) = Inr t"
  by (simp add: TranscriptEntry_kwargs_def asdict_TranscriptEntry_def)

lemma RubricItem_kwargs_asdict: "RubricItem_kwargs (asdict_RubricItem r) = Inr r"
  by (simp add: RubricItem_kwargs_def asdict_RubricItem_def)

lemma UserDetails_kwargs_asdict: "UserDetails_kwargs (asdict_UserDetails u) = Inr u"
  by (simp add: UserDetails_kwargs_def asdict_UserDetails_def)

lemma build_all_inverse:
  assumes "\<And>x. f (g x) = Inr x"
  shows "build_all f (map g xs) = Inr xs"
  by (induction xs) (simp_all add: assms)

lemma comprehension_transcript:
  "comprehension TranscriptEntry_kwargs (JArr (map asdict_TranscriptEntry xs)) = Inr xs"
  by (simp add: comprehension_def py_iter_def build_all_inverse TranscriptEntry_kwargs_asdict)

lemma comprehension_rubric:
  "comprehension RubricItem_kwargs (JArr (map asdict_RubricItem xs)) = Inr xs"
  by (simp add: comprehension_def py_iter_def build_all_inverse RubricItem_kwargs_asdict)

lemma truthy_asdict_UserDetails: "truthy (asdict_UserDetails u)"
  by (simp add: truthy_def asdict_UserDetails_def)

lemma upload_session_dump:
  "upload_handler s0 (Inr (session_dump s)) =
    (s0\<lparr>transcript := transcript s, rubric := rubric s,
        user_details := (case user_details s of Some u \<Rightarrow> Some u | None \<Rightarrow> user_details s0),
        session_status := ''ended''\<rparr>,
     [Success ''Session loaded from file.''])"
proof (cases "user_details s")
  case None
  then show ?thesis
    by (simp add: upload_handler_def session_dump_def dict_get_def comprehension_transcript
        comprehension_rubric truthy_def)
next
  case (Some u)
  then show ?thesis
    by (simp add: upload_handler_def session_dump_def dict_get_def comprehension_transcript
        comprehension_rubric truthy_asdict_UserDetails UserDetails_kwargs_asdict)
qed

lemma dict_get_Inr: "dict_get data k d = Inr v \<Longrightarrow> \<exists>v'. dict_get data k' d' = Inr v'"
  by (auto simp: dict_get_def split: json.splits option.splits)

lemma failed_upload_state:
  assumes "snd (upload_handler s loaded) = [Error e]"
  shows "fst (upload_handler s loaded) =
     (case document_transcript loaded of
        Inl _ \<Rightarrow> s
      | Inr es \<Rightarrow> (case document_rubric loaded of
                    Inl _ \<Rightarrow> s\<lparr>transcript := es\<rparr>
                  | Inr rs \<Rightarrow> s\<lparr>transcript := es, rubric := rs\<rparr>))"
  using assms
  by (auto simp: upload_handler_def document_transcript_def document_rubric_def Let_def
      split: sum.splits if_splits)

lemma TranscriptEntry_kwargs_TypeError: "TranscriptEntry_kwargs x = Inl e \<Longrightarrow> e = TypeError"
  by (auto simp: TranscriptEntry_kwargs_def split: json.splits if_splits option.splits)

lemma RubricItem_kwargs_TypeError: "RubricItem_kwargs x = Inl e \<Longrightarrow> e = TypeError"
  by (auto simp: RubricItem_kwargs_def split: json.splits if_splits option.splits)

lemma build_all_TypeError:
  assumes "\<And>x e. f x = Inl e \<Longrightarrow> e = TypeError"
  shows "build_all f xs = Inl e \<Longrightarrow> e = TypeError"
  by (induction xs arbitrary: e) (auto split: sum.splits dest: assms)

lemma comprehension_TypeError:
  assumes "\<And>x e. f x = Inl e \<Longrightarrow> e = TypeError"
  shows "comprehension f v = Inl e \<Longrightarrow> e = TypeError"
  using build_all_TypeError [of f, OF assms]
  by (auto simp: comprehension_def py_iter_def split: json.splits sum.splits)

lemma transcript_comprehension_TypeError:
  assumes "comprehension TranscriptEntry_kwargs v = Inl e"
  shows "e = TypeError"
proof (rule comprehension_TypeError [OF _ assms])
  fix x e'
  assume "TranscriptEntry_kwargs x = Inl e'"
  then show "e' = TypeError" by (rule TranscriptEntry_kwargs_TypeError)
qed

lemma rubric_comprehension_TypeError:
  assumes "comprehension RubricItem_kwargs v = Inl e"
  shows "e = TypeError"
proof (rule comprehension_TypeError [OF _ assms])
  fix x e'
  assume "RubricItem_kwargs x = Inl e'"
  then show "e' = TypeError" by (rule RubricItem_kwargs_TypeError)
qed

lemma TranscriptEntry_kwargs_fields:
  "TranscriptEntry_kwargs x = Inr y \<Longrightarrow> \<not> lacks_field [''speaker'', ''text'', ''ts''] x"
  by (auto simp: TranscriptEntry_kwargs_def lacks_field_def dest!: map_of_SomeD
      split: json.splits if_splits option.splits) force+

lemma RubricItem_kwargs_fields:
  "RubricItem_kwargs x = Inr y \<Longrightarrow> \<not> lacks_field [''id'', ''skill''] x"
  by (auto simp: RubricItem_kwargs_def lacks_field_def dest!: map_of_SomeD
      split: json.splits if_splits option.splits) force+

lemma build_all_lacking:
  assumes "\<And>x y. f x = Inr y \<Longrightarrow> \<not> P x"
  shows "list_ex P xs \<Longrightarrow> isl (build_all f xs)"
  by (induction xs) (auto split: sum.splits dest: assms)

lemma RubricItem_kwargs_default:
  assumes "omits_status x"
  shows "\<exists>r. RubricItem_kwargs x = Inr r \<and> status r = JStr PENDING \<and> restored_from x r"
proof -
  from assms obtain fs i k where x: "x = JObj fs"
    and i: "map_of fs ''id'' = Some i" and k: "map_of fs ''skill'' = Some k"
    and keys: "list_all (\<lambda>k. k = ''id'' \<or> k = ''skill'') (map fst fs)"
    by (auto simp: omits_status_def split: json.splits)
  from keys have "''status'' \<notin> fst ` set fs"
    by (auto simp: list_all_iff)
  then have n: "map_of fs ''status'' = None"
    by (simp add: map_of_eq_None_iff)
  from keys have a: "list_all (\<lambda>k. k \<in> set [''id'', ''skill'', ''status'']) (map fst fs)"
    by (auto simp: list_all_iff)
  have "RubricItem_kwargs x = Inr \<lparr>id' = i, skill = k, status = JStr PENDING\<rparr>"
    unfolding RubricItem_kwargs_def x using a i k n by simp
  moreover have "restored_from x \<lparr>id' = i, skill = k, status = JStr PENDING\<rparr>"
    using i k by (simp add: restored_from_def dict_get_def x)
  ultimately show ?thesis by simp
qed

lemma build_all_default:
  "list_all omits_status xs \<Longrightarrow>
     \<exists>rs. build_all RubricItem_kwargs xs = Inr rs \<and>
          list_all2 (\<lambda>x r. status r = JStr PENDING \<and> restored_from x r) xs rs"
proof (induction xs)
  case Nil
  then show ?case by simp
next
  case (Cons x xs)
  then obtain r rs where "RubricItem_kwargs x = Inr r" "status r = JStr PENDING"
    "restored_from x r" "build_all RubricItem_kwargs xs = Inr rs"
    "list_all2 (\<lambda>x r. status r = JStr PENDING \<and> restored_from x r) xs rs"
    using RubricItem_kwargs_default by fastforce
  then show ?case by simp
qed

subsection \<open>The loops over the rubric and the transcript\<close>

lemma apply_suggestion_map:
  "apply_suggestion su rb =
     map (\<lambda>r. if py_eq (id' r) (skillId su) then r\<lparr>status := JStr (su_status su)\<rparr> else r) rb"
  by (induction rb) simp_all

lemma resolve_pending_map:
  "resolve_pending rb =
     map (\<lambda>r. if status r = JStr PENDING then r\<lparr>status := JStr NOT_MET\<rparr> else r) rb"
  by (induction rb) simp_all

lemma apply_suggestion_unknown:
  "\<forall>r\<in>set rb. \<not> py_eq (id' r) (skillId su) \<Longrightarrow> apply_suggestion su rb = rb"
  by (induction rb) auto

lemma apply_suggestion_unique:
  "unique_ids rb \<Longrightarrow> i < length rb \<Longrightarrow> py_eq (id' (rb ! i)) (skillId su) \<Longrightarrow>
     apply_suggestion su rb = rb[i := (rb ! i)\<lparr>status := JStr (su_status su)\<rparr>]"
proof (induction rb arbitrary: i)
  case Nil
  then show ?case by simp
next
  case (Cons r rs)
  from Cons.prems(1) have d: "canon (id' r) \<notin> (canon \<circ> id') ` set rs" and u: "unique_ids rs"
    by (simp_all add: unique_ids_def)
  show ?case
  proof (cases i)
    case 0
    with Cons.prems have c: "canon (id' r) = canon (skillId su)"
      by (simp add: py_eq_canon)
    have "\<forall>x\<in>set rs. \<not> py_eq (id' x) (skillId su)"
    proof
      fix x assume "x \<in> set rs"
      with d have "canon (id' x) \<noteq> canon (id' r)"
        by (metis comp_apply image_eqI)
      with c show "\<not> py_eq (id' x) (skillId su)" by (auto simp: py_eq_def)
    qed
    with 0 Cons.prems show ?thesis by (simp add: apply_suggestion_unknown)
  next
    case (Suc j)
    with Cons.prems have j: "j < length rs" and p: "py_eq (id' (rs ! j)) (skillId su)"
      by simp_all
    from j d have "canon (id' (rs ! j)) \<noteq> canon (id' r)"
      by (metis comp_apply image_eqI nth_mem)
    with p have "\<not> py_eq (id' r) (skillId su)"
      by (auto simp: py_eq_def)
    with Suc Cons.IH [OF u j p] show ?thesis by simp
  qed
qed

lemma add_transcript_all_append:
  "transcript (add_transcript_all s calls) =
     transcript s @
       map (\<lambda>(sp, tx, now). \<lparr>speaker = JStr sp, text' = JStr (strip tx), ts = JFloat now\<rparr>)
         (filter (\<lambda>(sp, tx, now). strip tx \<noteq> []) calls)"
  by (induction s calls rule: add_transcript_all.induct) (simp_all add: add_transcript_def)

subsection \<open>The example sessions and documents, evaluated\<close>

lemma alice_state_eq:
  "alice_state = initial_state
     \<lparr>user_details := Some \<lparr>name = JStr ''Alice'', phone = JStr ''555'', designation = JStr ''Nurse''\<rparr>,
      duration_seconds := Some 600, session_status := ''idle''\<rparr>"
  by (simp add: alice_state_def welcome_form_def)

lemma bob_state_eq:
  "bob_state = initial_state
     \<lparr>user_details := Some \<lparr>name = JStr ''Bob'', phone = JStr ''777'', designation = JStr ''Student''\<rparr>,
      duration_seconds := Some 600, session_status := ''idle''\<rparr>"
  by (simp add: bob_state_def welcome_form_def)

lemma transcript_of_bad_rubric_document:
  "document_transcript (Inr bad_rubric_document) = Inr scenario_transcript"
  by (simp add: document_transcript_def bad_rubric_document_def dict_get_def comprehension_def
      py_iter_def TranscriptEntry_kwargs_def scenario_transcript_def)

lemma rubric_of_bad_rubric_document:
  "document_rubric (Inr bad_rubric_document) = Inl TypeError"
  by (simp add: document_rubric_def bad_rubric_document_def dict_get_def comprehension_def
      py_iter_def RubricItem_kwargs_def)

lemma upload_bad_rubric_document:
  "upload_handler s (Inr bad_rubric_document) =
     (s\<lparr>transcript := scenario_transcript\<rparr>, [Error TypeError])"
  by (simp add: upload_handler_def bad_rubric_document_def dict_get_def comprehension_def
      py_iter_def TranscriptEntry_kwargs_def RubricItem_kwargs_def scenario_transcript_def)

lemma transcript_of_null_ts_document:
  "document_transcript (Inr null_ts_document) =
     Inr [\<lparr>speaker = JStr ''user'', text' = JStr ''Hi doctor'', ts = JNull\<rparr>]"
  by (simp add: document_transcript_def null_ts_document_def dict_get_def comprehension_def
      py_iter_def TranscriptEntry_kwargs_def)

lemma rubric_of_null_ts_document:
  "document_rubric (Inr null_ts_document) = Inl TypeError"
  by (simp add: document_rubric_def null_ts_document_def dict_get_def comprehension_def
      py_iter_def RubricItem_kwargs_def)

lemma upload_null_ts_document:
  "upload_handler s (Inr null_ts_document) =
     (s\<lparr>transcript := [\<lparr>speaker = JStr ''user'', text' = JStr ''Hi doctor'', ts = JNull\<rparr>]\<rparr>,
      [Error TypeError])"
  by (simp add: upload_handler_def null_ts_document_def dict_get_def comprehension_def
      py_iter_def TranscriptEntry_kwargs_def RubricItem_kwargs_def)

lemma transcript_of_no_text_document:
  "document_transcript (Inr no_text_document) = Inl TypeError"
  by (simp add: document_transcript_def no_text_document_def dict_get_def comprehension_def
      py_iter_def TranscriptEntry_kwargs_def)

lemma upload_no_text_document:
  "upload_handler s (Inr no_text_document) = (s, [Error TypeError])"
  by (simp add: upload_handler_def no_text_document_def dict_get_def comprehension_def
      py_iter_def TranscriptEntry_kwargs_def)

lemma transcript_of_bad_user_document:
  "document_transcript (Inr bad_user_document) = Inr []"
  by (simp add: document_transcript_def bad_user_document_def dict_get_def comprehension_def
      py_iter_def)

lemma rubric_of_bad_user_document:
  "document_rubric (Inr bad_user_document) =
     Inr [\<lparr>id' = JStr ''a'', skill = JStr ''Hand hygiene'', status = JStr ''met''\<rparr>]"
  by (simp add: document_rubric_def bad_user_document_def dict_get_def comprehension_def
      py_iter_def RubricItem_kwargs_def)

lemma upload_bad_user_document:
  "upload_handler s (Inr bad_user_document) =
     (s\<lparr>transcript := [],
        rubric := [\<lparr>id' = JStr ''a'', skill = JStr ''Hand hygiene'', status = JStr ''met''\<rparr>]\<rparr>,
      [Error TypeError])"
  by (simp add: upload_handler_def bad_user_document_def dict_get_def comprehension_def
      py_iter_def RubricItem_kwargs_def UserDetails_kwargs_def truthy_def)

lemma upload_no_status_document:
  "upload_handler s (Inr no_status_document) =
     (s\<lparr>transcript := [],
        rubric := [\<lparr>id' = JStr ''a'', skill = JStr ''Hand hygiene'', status = JStr ''pending''\<rparr>,
                   \<lparr>id' = JInt 7, skill = JStr ''Consent'', status = JStr ''pending''\<rparr>],
        session_status := ''ended''\<rparr>,
      [Success ''Session loaded from file.''])"
  by (simp add: upload_handler_def no_status_document_def dict_get_def comprehension_def
      py_iter_def RubricItem_kwargs_def truthy_def PENDING_def)

lemma upload_nan_document:
  "upload_handler s (Inr nan_document) =
     (s\<lparr>transcript := [\<lparr>speaker = JStr ''user'', text' = JStr ''Hi doctor'', ts = JNaN\<rparr>],
        rubric := [], session_status := ''ended''\<rparr>,
      [Success ''Session loaded from file.''])"
  by (simp add: upload_handler_def nan_document_def dict_get_def comprehension_def
      py_iter_def TranscriptEntry_kwargs_def truthy_def)

lemma stale_suggestion_state_eq:
  "stale_suggestion_state = alice_state
     \<lparr>transcript := [],
      rubric := [\<lparr>id' = JStr ''consent'', skill = JStr ''Consent'', status = JStr ''pending''\<rparr>],
      suggested_update :=
        Some \<lparr>skillId = JStr ''hand_hygiene'', su_status = ''not_met'', reasoning = ''observed lapse''\<rparr>,
      session_status := ''ended''\<rparr>"
  by (simp add: stale_suggestion_state_def upload_handler_def propose_suggestion_def
      other_rubric_document_def dict_get_def comprehension_def py_iter_def RubricItem_kwargs_def
      truthy_def alice_state_eq initial_state_def PENDING_def NOT_MET_def)

section \<open>The summary\<close>

text \<open>
  Claim C1, as the code has it. \<^verbatim>\<open>generate_local_summary\<close> is a function of the
  transcript, the rubric and the participant's name held in the session state: two session
  states that agree on whether user details are set and on the name give the same result
  for the same transcript and rubric, whatever their other fields are.
\<close>

theorem summary_depends_on_name:
  assumes "map_option name (user_details s1) = map_option name (user_details s2)"
  shows "generate_local_summary py_str s1 tr rb = generate_local_summary py_str s2 tr rb"
  using assms
  by (cases "user_details s1"; cases "user_details s2") (simp_all add: generate_local_summary_def)

theorem summary_depends_on_name_witness:
  "map_option name (user_details alice_state) =
     map_option name (user_details (alice_state\<lparr>session_status := ''live'', start_time := Some 5\<rparr>))
   \<and> generate_local_summary no_text alice_state scenario_transcript scenario_rubric =
       generate_local_summary no_text (alice_state\<lparr>session_status := ''live'', start_time := Some 5\<rparr>)
         scenario_transcript scenario_rubric"
  using summary_depends_on_name
    [of alice_state "alice_state\<lparr>session_status := ''live'', start_time := Some 5\<rparr>"
        no_text scenario_transcript scenario_rubric]
  by simp

text \<open>
  The same transcript and the same rubric give two different summaries in the sessions of
  two participants: the text depends on state outside the two arguments.
\<close>

theorem summary_hidden_state_counterexample:
  "generate_local_summary no_text alice_state scenario_transcript scenario_rubric \<noteq>
   generate_local_summary no_text bob_state scenario_transcript scenario_rubric"
  by (simp add: generate_local_summary_def alice_state_eq bob_state_eq initial_state_def
      scenario_transcript_def scenario_rubric_def MET_def NOT_MET_def slice_from_def Let_def
      py_join_def py_format_def)



section \<open>Loading and saving\<close>

text \<open>
  Claim C2, as the code has it. A load that fails leaves every field but the transcript
  and the rubric as it was: user details, summary and status among them. It leaves the
  whole state as it was when the document does not parse, is not an object, or has a
  transcript that cannot be built. The transcript is replaced as soon as it has been
  built, also when the load fails after that, and so is the rubric when the failure is in
  the user details. The other two operations that refuse their input, the welcome form
  without a name and the transcript form with a blank text, leave the state as it was.
\<close>

theorem failed_load_state:
  "(snd (upload_handler s loaded) = [Error e] \<longrightarrow>
      (let s' = fst (upload_handler s loaded) in
         s' = s\<lparr>transcript := transcript s', rubric := rubric s'\<rparr>
       \<and> (isl (document_transcript loaded) \<longrightarrow> s' = s)
       \<and> (\<forall>es. document_transcript loaded = Inr es \<longrightarrow> transcript s' = es)
       \<and> (isl (document_rubric loaded) \<longrightarrow> rubric s' = rubric s)
       \<and> (\<forall>rs. \<not> isl (document_transcript loaded) \<and> document_rubric loaded = Inr rs \<longrightarrow>
              rubric s' = rs)))
   \<and> (nm = [] \<longrightarrow> fst (welcome_form sw nm ph de duration) = sw)
   \<and> (strip tx = [] \<longrightarrow> fst (add_transcript sa sp tx now) = sa)"
proof (intro conjI impI)
  assume f: "snd (upload_handler s loaded) = [Error e]"
  show "let s' = fst (upload_handler s loaded) in
         s' = s\<lparr>transcript := transcript s', rubric := rubric s'\<rparr>
       \<and> (isl (document_transcript loaded) \<longrightarrow> s' = s)
       \<and> (\<forall>es. document_transcript loaded = Inr es \<longrightarrow> transcript s' = es)
       \<and> (isl (document_rubric loaded) \<longrightarrow> rubric s' = rubric s)
       \<and> (\<forall>rs. \<not> isl (document_transcript loaded) \<and> document_rubric loaded = Inr rs \<longrightarrow>
              rubric s' = rs)"
    unfolding Let_def failed_upload_state [OF f]
    by (auto split: sum.splits)
next
  assume "nm = []"
  then show "fst (welcome_form sw nm ph de duration) = sw"
    by (simp add: welcome_form_def)
next
  assume "strip tx = []"
  then show "fst (add_transcript sa sp tx now) = sa"
    by (simp add: add_transcript_def)
qed

theorem failed_load_state_witness:
  "snd (upload_handler alice_state (Inr no_text_document)) = [Error TypeError]
   \<and> isl (document_transcript (Inr no_text_document))
   \<and> fst (upload_handler alice_state (Inr no_text_document)) = alice_state
   \<and> snd (upload_handler alice_state (Inr bad_rubric_document)) = [Error TypeError]
   \<and> document_transcript (Inr bad_rubric_document) = Inr scenario_transcript
   \<and> isl (document_rubric (Inr bad_rubric_document))
   \<and> transcript (fst (upload_handler alice_state (Inr bad_rubric_document))) = scenario_transcript
   \<and> rubric (fst (upload_handler alice_state (Inr bad_rubric_document))) = rubric alice_state
   \<and> snd (upload_handler alice_state (Inr null_ts_document)) = [Error TypeError]
   \<and> transcript (fst (upload_handler alice_state (Inr null_ts_document))) =
       [\<lparr>speaker = JStr ''user'', text' = JStr ''Hi doctor'', ts = JNull\<rparr>]
   \<and> snd (upload_handler alice_state (Inr bad_user_document)) = [Error TypeError]
   \<and> rubric (fst (upload_handler alice_state (Inr bad_user_document))) =
       [\<lparr>id' = JStr ''a'', skill = JStr ''Hand hygiene'', status = JStr ''met''\<rparr>]
   \<and> user_details (fst (upload_handler alice_state (Inr bad_user_document))) =
       user_details alice_state
   \<and> fst (welcome_form initial_state [] ''555'' ''Nurse'' 10) = initial_state
   \<and> strip ''   '' = []
   \<and> fst (add_transcript alice_state ''user'' ''   '' 5) = alice_state"
  using failed_load_state [where s = alice_state and loaded = "Inr no_text_document"
      and e = TypeError and nm = "[]" and sw = initial_state and ph = "''555''" and de = "''Nurse''"
      and duration = 10 and tx = "''   ''" and sa = alice_state and sp = "''user''" and now = 5]
    failed_load_state [where s = alice_state and loaded = "Inr bad_rubric_document"
      and e = TypeError and nm = "[]" and sw = initial_state and ph = "''555''" and de = "''Nurse''"
      and duration = 10 and tx = "''   ''" and sa = alice_state and sp = "''user''" and now = 5]
    failed_load_state [where s = alice_state and loaded = "Inr null_ts_document"
      and e = TypeError and nm = "[]" and sw = initial_state and ph = "''555''" and de = "''Nurse''"
      and duration = 10 and tx = "''   ''" and sa = alice_state and sp = "''user''" and now = 5]
    failed_load_state [where s = alice_state and loaded = "Inr bad_user_document"
      and e = TypeError and nm = "[]" and sw = initial_state and ph = "''555''" and de = "''Nurse''"
      and duration = 10 and tx = "''   ''" and sa = alice_state and sp = "''user''" and now = 5]
  by (simp add: upload_no_text_document upload_bad_rubric_document upload_null_ts_document
      upload_bad_user_document transcript_of_no_text_document transcript_of_bad_rubric_document
      rubric_of_bad_rubric_document transcript_of_null_ts_document rubric_of_null_ts_document
      transcript_of_bad_user_document rubric_of_bad_user_document
      strip_def is_space_def welcome_form_def add_transcript_def)

text \<open>
  A document with a well-formed transcript and a rubric item without a skill: the load
  fails and the transcript of the session has been replaced.
\<close>

theorem failed_load_counterexample:
  "snd (upload_handler alice_state (Inr bad_rubric_document)) = [Error TypeError]
   \<and> transcript alice_state = []
   \<and> transcript (fst (upload_handler alice_state (Inr bad_rubric_document))) =
       [\<lparr>speaker = JStr ''user'', text' = JStr ''Hi doctor'', ts = JInt 1\<rparr>]
   \<and> fst (upload_handler alice_state (Inr bad_rubric_document)) \<noteq> alice_state"
proof -
  have "transcript (fst (upload_handler alice_state (Inr bad_rubric_document))) \<noteq> transcript alice_state"
    by (simp add: upload_bad_rubric_document scenario_transcript_def alice_state_eq initial_state_def)
  then have "fst (upload_handler alice_state (Inr bad_rubric_document)) \<noteq> alice_state"
    by auto
  then show ?thesis
    by (simp add: upload_bad_rubric_document scenario_transcript_def alice_state_eq initial_state_def)
qed

text \<open>
  Claim C3, as the code has it. Loading the document saved from a session restores its
  transcript and its rubric, and its user details when it has some; when it has none, the
  user details of the session that loads are kept. The document holds no status, start
  time or duration: loading sets the status to \<^verbatim>\<open>ended\<close> and leaves the start time and
  the duration of the loading session as they were, and its summary and pending suggestion
  as well.
\<close>

theorem round_trip:
  "(let r = upload_handler s0 (Inr (session_dump s)); s' = fst r in
      snd r = [Success ''Session loaded from file.'']
    \<and> transcript s' = transcript s
    \<and> rubric s' = rubric s
    \<and> (user_details s \<noteq> None \<longrightarrow> user_details s' = user_details s)
    \<and> (user_details s = None \<longrightarrow> user_details s' = user_details s0)
    \<and> session_status s' = ''ended''
    \<and> start_time s' = start_time s0
    \<and> duration_seconds s' = duration_seconds s0
    \<and> summary_text s' = summary_text s0
    \<and> suggested_update s' = suggested_update s0)"
  by (cases "user_details s") (simp_all add: upload_session_dump)

theorem round_trip_witness:
  "user_details scenario_state \<noteq> None
   \<and> transcript (fst (upload_handler bob_state (Inr (session_dump scenario_state)))) = scenario_transcript
   \<and> rubric (fst (upload_handler bob_state (Inr (session_dump scenario_state)))) = scenario_rubric
   \<and> user_details (fst (upload_handler bob_state (Inr (session_dump scenario_state)))) =
       Some \<lparr>name = JStr ''Alice'', phone = JStr ''555'', designation = JStr ''Nurse''\<rparr>
   \<and> user_details initial_state = None
   \<and> user_details (fst (upload_handler bob_state (Inr (session_dump initial_state)))) =
       Some \<lparr>name = JStr ''Bob'', phone = JStr ''777'', designation = JStr ''Student''\<rparr>"
  using round_trip [of bob_state scenario_state] round_trip [of bob_state initial_state]
  by (simp add: Let_def scenario_state_def alice_state_eq bob_state_eq initial_state_def)

text \<open>
  The session saved before the welcome form is filled in has no user details; loaded into
  the session of a participant, it leaves that participant's details in place.
\<close>

theorem round_trip_counterexample:
  "user_details (fst (upload_handler bob_state (Inr (session_dump initial_state)))) \<noteq>
   user_details initial_state"
  by (simp add: upload_session_dump bob_state_eq initial_state_def)

text \<open>
  Claim C5, as the code has it. A load fails, and shows the error, when the parser rejects
  the payload, when an entry of the transcript list is an object without one of
  \<^verbatim>\<open>speaker\<close>, \<^verbatim>\<open>text\<close> and \<^verbatim>\<open>ts\<close>, and when an item of the rubric list is an object
  without one of \<^verbatim>\<open>id\<close> and \<^verbatim>\<open>skill\<close>; the exception of a missing field is
  \<^verbatim>\<open>TypeError\<close>. With such a transcript entry the session is left as it was: no record
  with an empty text is made. The parser does not reject every payload that is not valid
  JSON.
\<close>

theorem decode_fails:
  "(loaded = Inl e \<longrightarrow> upload_handler s loaded = (s, [Error e]))
   \<and> (loaded = Inr data \<and> entry_lacking ''transcript'' [''speaker'', ''text'', ''ts''] data \<longrightarrow>
        upload_handler s loaded = (s, [Error TypeError]))
   \<and> (loaded = Inr data \<and> entry_lacking ''rubric'' [''id'', ''skill''] data \<longrightarrow>
        snd (upload_handler s loaded) = [Error TypeError])"
proof -
  have parse: "upload_handler s (Inl e) = (s, [Error e])"
    by (simp add: upload_handler_def)
  have entries: "upload_handler s (Inr data) = (s, [Error TypeError])"
    if a: "entry_lacking ''transcript'' [''speaker'', ''text'', ''ts''] data"
  proof -
    from a obtain xs where g: "dict_get data ''transcript'' (JArr []) = Inr (JArr xs)"
      and l: "list_ex (lacks_field [''speaker'', ''text'', ''ts'']) xs"
      by (auto simp: entry_lacking_def split: sum.splits json.splits)
    have "isl (build_all TranscriptEntry_kwargs xs)"
      using build_all_lacking [of TranscriptEntry_kwargs, OF TranscriptEntry_kwargs_fields l] .
    then obtain e' where c: "comprehension TranscriptEntry_kwargs (JArr xs) = Inl e'"
      by (auto simp: comprehension_def py_iter_def isl_def)
    then have "e' = TypeError"
      by (rule transcript_comprehension_TypeError)
    with g c show ?thesis
      by (simp add: upload_handler_def)
  qed
  have items: "snd (upload_handler s (Inr data)) = [Error TypeError]"
    if a: "entry_lacking ''rubric'' [''id'', ''skill''] data"
  proof -
    from a obtain xs where g: "dict_get data ''rubric'' (JArr []) = Inr (JArr xs)"
      and l: "list_ex (lacks_field [''id'', ''skill'']) xs"
      by (auto simp: entry_lacking_def split: sum.splits json.splits)
    have "isl (build_all RubricItem_kwargs xs)"
      using build_all_lacking [of RubricItem_kwargs, OF RubricItem_kwargs_fields l] .
    then obtain e' where c: "comprehension RubricItem_kwargs (JArr xs) = Inl e'"
      by (auto simp: comprehension_def py_iter_def isl_def)
    then have e': "e' = TypeError"
      by (rule rubric_comprehension_TypeError)
    from g obtain tv where t: "dict_get data ''transcript'' (JArr []) = Inr tv"
      using dict_get_Inr by blast
    show ?thesis
    proof (cases "comprehension TranscriptEntry_kwargs tv")
      case (Inl e1)
      then have "e1 = TypeError"
        by (rule transcript_comprehension_TypeError)
      with Inl t show ?thesis by (simp add: upload_handler_def)
    next
      case (Inr es)
      with t g c e' show ?thesis by (simp add: upload_handler_def)
    qed
  qed
  from parse entries items show ?thesis by blast
qed

theorem decode_fails_witness:
  "upload_handler alice_state (Inl JSONDecodeError) = (alice_state, [Error JSONDecodeError])
   \<and> entry_lacking ''transcript'' [''speaker'', ''text'', ''ts''] no_text_document
   \<and> upload_handler alice_state (Inr no_text_document) = (alice_state, [Error TypeError])
   \<and> entry_lacking ''rubric'' [''id'', ''skill''] bad_rubric_document
   \<and> snd (upload_handler alice_state (Inr bad_rubric_document)) = [Error TypeError]"
proof -
  have l1: "entry_lacking ''transcript'' [''speaker'', ''text'', ''ts''] no_text_document"
    by (simp add: entry_lacking_def lacks_field_def no_text_document_def dict_get_def)
  have l2: "entry_lacking ''rubric'' [''id'', ''skill''] bad_rubric_document"
    by (simp add: entry_lacking_def lacks_field_def bad_rubric_document_def dict_get_def)
  note t1 = decode_fails [where loaded = "Inl JSONDecodeError" and e = JSONDecodeError
      and s = alice_state and data = no_text_document]
  note t2 = decode_fails [where loaded = "Inr no_text_document" and e = JSONDecodeError
      and s = alice_state and data = no_text_document]
  note t3 = decode_fails [where loaded = "Inr bad_rubric_document" and e = JSONDecodeError
      and s = alice_state and data = bad_rubric_document]
  from l1 l2 t1 t2 t3 show ?thesis
    by simp
qed

text \<open>
  The document of a payload that gives \<^verbatim>\<open>NaN\<close> for a time stamp: the payload is not
  valid JSON, the parser accepts it, and the load succeeds with a transcript entry whose
  time stamp is \<^verbatim>\<open>nan\<close>.
\<close>

theorem decode_fails_counterexample:
  "has_nan nan_document
   \<and> snd (upload_handler alice_state (Inr nan_document)) = [Success ''Session loaded from file.'']
   \<and> \<not> reports_failure (snd (upload_handler alice_state (Inr nan_document)))
   \<and> transcript (fst (upload_handler alice_state (Inr nan_document))) =
       [\<lparr>speaker = JStr ''user'', text' = JStr ''Hi doctor'', ts = JNaN\<rparr>]"
proof -
  have "has_nan nan_document"
    by (simp add: nan_document_def)
  then show ?thesis
    by (simp add: upload_nan_document reports_failure_def)
qed

text \<open>
  Claim C10. When the rubric items of a document carry \<^verbatim>\<open>id\<close> and \<^verbatim>\<open>skill\<close> and no
  \<^verbatim>\<open>status\<close>, and its transcript and user details can be restored, the load succeeds, and
  every restored rubric item has the id and the skill of its item in the document and the
  status \<^verbatim>\<open>pending\<close>.
\<close>

theorem missing_status_is_pending:
  assumes "dict_get data ''rubric'' (JArr []) = Inr (JArr items)"
    and "list_all omits_status items"
    and "document_transcript (Inr data) = Inr es"
    and "dict_get data ''user_details'' JNull = Inr ud"
    and "truthy ud \<longrightarrow> UserDetails_kwargs ud = Inr u"
  shows "snd (upload_handler s (Inr data)) = [Success ''Session loaded from file.'']
     \<and> length (rubric (fst (upload_handler s (Inr data)))) = length items
     \<and> (\<forall>n<length items.
          status (rubric (fst (upload_handler s (Inr data))) ! n) = JStr PENDING
          \<and> restored_from (items ! n) (rubric (fst (upload_handler s (Inr data))) ! n))"
proof -
  from assms(2) obtain rs where b: "build_all RubricItem_kwargs items = Inr rs"
    and r: "list_all2 (\<lambda>x r. status r = JStr PENDING \<and> restored_from x r) items rs"
    using build_all_default by blast
  from b have c: "comprehension RubricItem_kwargs (JArr items) = Inr rs"
    by (simp add: comprehension_def py_iter_def)
  from assms(3) obtain tv where t: "dict_get data ''transcript'' (JArr []) = Inr tv"
    "comprehension TranscriptEntry_kwargs tv = Inr es"
    by (auto simp: document_transcript_def split: sum.splits)
  have rb: "rubric (fst (upload_handler s (Inr data))) = rs"
    and ok: "snd (upload_handler s (Inr data)) = [Success ''Session loaded from file.'']"
    using t c assms(1,4,5) by (auto simp: upload_handler_def Let_def)
  from r show ?thesis
    unfolding rb ok by (simp add: list_all2_conv_all_nth)
qed

theorem missing_status_is_pending_witness:
  "dict_get no_status_document ''rubric'' (JArr []) =
     Inr (JArr [JObj [(''id'', JStr ''a''), (''skill'', JStr ''Hand hygiene'')],
                JObj [(''skill'', JStr ''Consent''), (''id'', JInt 7)]])
   \<and> list_all omits_status [JObj [(''id'', JStr ''a''), (''skill'', JStr ''Hand hygiene'')],
                            JObj [(''skill'', JStr ''Consent''), (''id'', JInt 7)]]
   \<and> document_transcript (Inr no_status_document) = Inr []
   \<and> dict_get no_status_document ''user_details'' JNull = Inr JNull
   \<and> \<not> truthy JNull
   \<and> snd (upload_handler alice_state (Inr no_status_document)) = [Success ''Session loaded from file.'']
   \<and> rubric (fst (upload_handler alice_state (Inr no_status_document))) =
       [\<lparr>id' = JStr ''a'', skill = JStr ''Hand hygiene'', status = JStr ''pending''\<rparr>,
        \<lparr>id' = JInt 7, skill = JStr ''Consent'', status = JStr ''pending''\<rparr>]"
proof -
  have h1: "dict_get no_status_document ''rubric'' (JArr []) =
     Inr (JArr [JObj [(''id'', JStr ''a''), (''skill'', JStr ''Hand hygiene'')],
                JObj [(''skill'', JStr ''Consent''), (''id'', JInt 7)]])"
    by (simp add: no_status_document_def dict_get_def)
  have h2: "list_all omits_status [JObj [(''id'', JStr ''a''), (''skill'', JStr ''Hand hygiene'')],
                                  JObj [(''skill'', JStr ''Consent''), (''id'', JInt 7)]]"
    by (simp add: omits_status_def)
  have h3: "document_transcript (Inr no_status_document) = Inr []"
    by (simp add: no_status_document_def document_transcript_def dict_get_def comprehension_def
        py_iter_def)
  have h4: "dict_get no_status_document ''user_details'' JNull = Inr JNull"
    by (simp add: no_status_document_def dict_get_def)
  have h5: "truthy JNull \<longrightarrow> UserDetails_kwargs JNull = Inr \<lparr>name = JNull, phone = JNull, designation = JNull\<rparr>"
    by (simp add: truthy_def)
  note t = missing_status_is_pending [OF h1 h2 h3 h4 h5, of alice_state]
  from h1 h2 h3 h4 t show ?thesis
    by (simp add: upload_no_status_document truthy_def)
qed

section \<open>The rubric, the transcript and the suggestions\<close>

text \<open>
  Claim C6, as the code has it. The only place that sets a status by the id of an item is
  the loop of the button "Accept suggestion". With an id that no rubric item has, the loop
  leaves every item as it was, and the block does not fail: it reports success. With an id
  that is in the rubric, the loop gives the suggested status to every item of that id and
  changes no other item and no id or skill; when the ids of the rubric are unique, that
  is the one item of that id.
\<close>

theorem status_by_id:
  assumes "suggested_update s = Some su"
  shows "(\<exists>s'. accept_suggestion py_str s now = Some (s', [Success ''Suggestion accepted.''])
           \<and> rubric s' = apply_suggestion su (rubric s))
     \<and> ((\<forall>r\<in>set (rubric s). \<not> py_eq (id' r) (skillId su)) \<longrightarrow>
           apply_suggestion su (rubric s) = rubric s)
     \<and> length (apply_suggestion su (rubric s)) = length (rubric s)
     \<and> (\<forall>i<length (rubric s).
           apply_suggestion su (rubric s) ! i =
             (if py_eq (id' (rubric s ! i)) (skillId su)
              then (rubric s ! i)\<lparr>status := JStr (su_status su)\<rparr>
              else rubric s ! i))
     \<and> (\<forall>i<length (rubric s).
           unique_ids (rubric s) \<and> py_eq (id' (rubric s ! i)) (skillId su) \<longrightarrow>
           apply_suggestion su (rubric s) =
             (rubric s)[i := (rubric s ! i)\<lparr>status := JStr (su_status su)\<rparr>])"
proof -
  have "\<exists>s'. accept_suggestion py_str s now = Some (s', [Success ''Suggestion accepted.''])
           \<and> rubric s' = apply_suggestion su (rubric s)"
    using assms by (simp add: accept_suggestion_def)
  moreover have "length (apply_suggestion su (rubric s)) = length (rubric s)"
    by (simp add: apply_suggestion_map)
  moreover have "\<forall>i<length (rubric s).
           apply_suggestion su (rubric s) ! i =
             (if py_eq (id' (rubric s ! i)) (skillId su)
              then (rubric s ! i)\<lparr>status := JStr (su_status su)\<rparr>
              else rubric s ! i)"
    by (simp add: apply_suggestion_map)
  ultimately show ?thesis
    using apply_suggestion_unknown apply_suggestion_unique by blast
qed

theorem status_by_id_witness:
  "suggested_update (fst (propose_suggestion scenario_state (JStr ''a'') NOT_MET ''observed lapse'')) =
     Some \<lparr>skillId = JStr ''a'', su_status = ''not_met'', reasoning = ''observed lapse''\<rparr>
   \<and> unique_ids scenario_rubric
   \<and> py_eq (id' (scenario_rubric ! 0)) (JStr ''a'')
   \<and> apply_suggestion \<lparr>skillId = JStr ''a'', su_status = ''not_met'', reasoning = ''observed lapse''\<rparr>
       scenario_rubric =
       [\<lparr>id' = JStr ''a'', skill = JStr ''Hand hygiene'', status = JStr ''not_met''\<rparr>,
        \<lparr>id' = JStr ''b'', skill = JStr ''Consent'', status = JStr ''not_met''\<rparr>]
   \<and> map id' scenario_rubric = [JStr ''a'', JStr ''b'']
   \<and> \<not> py_eq (JStr ''a'') (JStr ''zzz'')
   \<and> \<not> py_eq (JStr ''b'') (JStr ''zzz'')
   \<and> apply_suggestion \<lparr>skillId = JStr ''zzz'', su_status = ''met'', reasoning = []\<rparr> scenario_rubric =
       scenario_rubric
   \<and> py_eq (id' (numbered_rubric ! 0)) (JBool True)
   \<and> apply_suggestion \<lparr>skillId = JBool True, su_status = ''met'', reasoning = []\<rparr> numbered_rubric =
       [\<lparr>id' = JInt 1, skill = JStr ''Hand hygiene'', status = JStr ''met''\<rparr>,
        \<lparr>id' = JNaN, skill = JStr ''Consent'', status = JStr ''pending''\<rparr>]
   \<and> \<not> py_eq (id' (numbered_rubric ! 0)) JNaN
   \<and> \<not> py_eq (id' (numbered_rubric ! 1)) JNaN
   \<and> apply_suggestion \<lparr>skillId = JNaN, su_status = ''met'', reasoning = []\<rparr> numbered_rubric =
       numbered_rubric"
  using status_by_id
    [of "fst (propose_suggestion scenario_state (JStr ''a'') NOT_MET ''observed lapse'')"
        "\<lparr>skillId = JStr ''a'', su_status = ''not_met'', reasoning = ''observed lapse''\<rparr>" no_text 5]
    status_by_id
    [of "fst (propose_suggestion scenario_state (JStr ''zzz'') MET [])"
        "\<lparr>skillId = JStr ''zzz'', su_status = ''met'', reasoning = []\<rparr>" no_text 5]
    status_by_id
    [of "fst (propose_suggestion (alice_state\<lparr>rubric := numbered_rubric\<rparr>) (JBool True) MET [])"
        "\<lparr>skillId = JBool True, su_status = ''met'', reasoning = []\<rparr>" no_text 5]
    status_by_id
    [of "fst (propose_suggestion (alice_state\<lparr>rubric := numbered_rubric\<rparr>) JNaN MET [])"
        "\<lparr>skillId = JNaN, su_status = ''met'', reasoning = []\<rparr>" no_text 5]
  by (simp add: propose_suggestion_def scenario_state_def scenario_rubric_def numbered_rubric_def
      NOT_MET_def MET_def unique_ids_def py_eq_def)

text \<open>
  A suggestion for a skill that is no longer in the rubric is accepted with the message of
  success, and no failure is reported.
\<close>

theorem status_by_id_counterexample:
  "suggested_update stale_suggestion_state =
     Some \<lparr>skillId = JStr ''hand_hygiene'', su_status = ''not_met'', reasoning = ''observed lapse''\<rparr>
   \<and> map id' (rubric stale_suggestion_state) = [JStr ''consent'']
   \<and> \<not> py_eq (JStr ''consent'') (JStr ''hand_hygiene'')
   \<and> map_option snd (accept_suggestion no_text stale_suggestion_state 5) =
       Some [Success ''Suggestion accepted.'']
   \<and> \<not> reports_failure [Success ''Suggestion accepted.'']"
  by (simp add: stale_suggestion_state_eq accept_suggestion_def reports_failure_def py_eq_def)

text \<open>
  Claim C7, as the code has it. The transcript form with a text that is empty after
  stripping does nothing and shows nothing: no failure is reported. With any other text
  it appends one entry, which holds the stripped text. After a run of submissions the
  transcript is the one before, followed by the entries of the submissions whose stripped
  text is not empty, in the order of the submissions; its length has grown by their number.
\<close>

theorem transcript_appends:
  "(strip tx = [] \<longrightarrow> add_transcript s sp tx now = (s, []))
   \<and> (strip tx \<noteq> [] \<longrightarrow>
        add_transcript s sp tx now =
          (s\<lparr>transcript := transcript s @
                [\<lparr>speaker = JStr sp, text' = JStr (strip tx), ts = JFloat now\<rparr>]\<rparr>,
           [Success ''Added.'']))
   \<and> transcript (add_transcript_all s calls) =
        transcript s @
          map (\<lambda>(sp, tx, now). \<lparr>speaker = JStr sp, text' = JStr (strip tx), ts = JFloat now\<rparr>)
            (filter (\<lambda>(sp, tx, now). strip tx \<noteq> []) calls)
   \<and> length (transcript (add_transcript_all s calls)) =
        length (transcript s) + length (filter (\<lambda>(sp, tx, now). strip tx \<noteq> []) calls)"
  by (simp add: add_transcript_all_append add_transcript_def)

theorem transcript_appends_witness:
  "strip ''   '' = []
   \<and> add_transcript alice_state ''user'' ''   '' 5 = (alice_state, [])
   \<and> strip '' Bye '' \<noteq> []
   \<and> transcript (add_transcript_all alice_state
        [(''user'', ''Hello'', 1), (''ai'', ''   '', 2), (''user'', '' Bye '', 3)]) =
       [\<lparr>speaker = JStr ''user'', text' = JStr ''Hello'', ts = JFloat 1\<rparr>,
        \<lparr>speaker = JStr ''user'', text' = JStr ''Bye'', ts = JFloat 3\<rparr>]"
  using transcript_appends
    [of "''   ''" alice_state "''user''" 5
        "[(''user'', ''Hello'', 1), (''ai'', ''   '', 2), (''user'', '' Bye '', 3)]"]
  by (simp add: strip_def is_space_def alice_state_eq initial_state_def)

text \<open>
  A blank text is dropped without any message: the block reports no failure.
\<close>

theorem transcript_appends_counterexample:
  "strip ''   '' = []
   \<and> snd (add_transcript alice_state ''user'' ''   '' 5) = []
   \<and> \<not> reports_failure (snd (add_transcript alice_state ''user'' ''   '' 5))"
  by (simp add: strip_def is_space_def add_transcript_def reports_failure_def)

text \<open>
  Claim C8. Without a pending suggestion neither button can be used. With a pending
  suggestion, accepting gives the suggested status to the rubric items whose id is the
  suggestion's skill and leaves the other items as they were, and appends one transcript
  entry of the speaker \<^verbatim>\<open>system\<close>; rejecting appends one such entry and leaves the rubric as
  it was; after either, no suggestion is pending.
\<close>

theorem suggestion_buttons:
  "(suggested_update s = None \<longrightarrow>
      accept_suggestion py_str s now = None \<and> reject_suggestion py_str s now = None)
   \<and> (suggested_update s = Some su \<longrightarrow>
        (\<exists>s' e. accept_suggestion py_str s now = Some (s', [Success ''Suggestion accepted.''])
           \<and> length (rubric s') = length (rubric s)
           \<and> (\<forall>i<length (rubric s).
                 rubric s' ! i =
                   (if py_eq (id' (rubric s ! i)) (skillId su)
                    then (rubric s ! i)\<lparr>status := JStr (su_status su)\<rparr>
                    else rubric s ! i))
           \<and> transcript s' = transcript s @ [e] \<and> speaker e = JStr ''system''
           \<and> suggested_update s' = None)
      \<and> (\<exists>s' e. reject_suggestion py_str s now = Some (s', [Success ''Suggestion rejected.''])
           \<and> rubric s' = rubric s
           \<and> transcript s' = transcript s @ [e] \<and> speaker e = JStr ''system''
           \<and> suggested_update s' = None))"
  by (simp add: accept_suggestion_def reject_suggestion_def apply_suggestion_map)

theorem suggestion_buttons_witness:
  "suggested_update alice_state = None
   \<and> accept_suggestion no_text alice_state 5 = None
   \<and> reject_suggestion no_text alice_state 5 = None
   \<and> suggested_update (fst (propose_suggestion scenario_state (JStr ''a'') NOT_MET ''observed lapse'')) =
       Some \<lparr>skillId = JStr ''a'', su_status = ''not_met'', reasoning = ''observed lapse''\<rparr>
   \<and> map_option (rubric \<circ> fst)
       (accept_suggestion no_text
          (fst (propose_suggestion scenario_state (JStr ''a'') NOT_MET ''observed lapse'')) 5) =
       Some [\<lparr>id' = JStr ''a'', skill = JStr ''Hand hygiene'', status = JStr ''not_met''\<rparr>,
             \<lparr>id' = JStr ''b'', skill = JStr ''Consent'', status = JStr ''not_met''\<rparr>]
   \<and> map_option (transcript \<circ> fst)
       (accept_suggestion no_text
          (fst (propose_suggestion scenario_state (JStr ''a'') NOT_MET ''observed lapse'')) 5) =
       Some [\<lparr>speaker = JStr ''user'', text' = JStr ''Hi doctor'', ts = JInt 1\<rparr>,
             \<lparr>speaker = JStr ''system'', text' = JStr ''Suggestion accepted for a'', ts = JFloat 5\<rparr>]
   \<and> map_option (suggested_update \<circ> fst)
       (accept_suggestion no_text
          (fst (propose_suggestion scenario_state (JStr ''a'') NOT_MET ''observed lapse'')) 5) =
       Some None
   \<and> map_option (rubric \<circ> fst)
       (reject_suggestion no_text
          (fst (propose_suggestion scenario_state (JStr ''a'') NOT_MET ''observed lapse'')) 5) =
       Some scenario_rubric
   \<and> map_option (rubric \<circ> fst)
       (accept_suggestion no_text
          (fst (propose_suggestion (alice_state\<lparr>rubric := numbered_rubric\<rparr>) (JFloat 1) MET [])) 5) =
       Some [\<lparr>id' = JInt 1, skill = JStr ''Hand hygiene'', status = JStr ''met''\<rparr>,
             \<lparr>id' = JNaN, skill = JStr ''Consent'', status = JStr ''pending''\<rparr>]
   \<and> map_option (rubric \<circ> fst)
       (accept_suggestion no_text
          (fst (propose_suggestion (alice_state\<lparr>rubric := numbered_rubric\<rparr>) JNaN MET [])) 5) =
       Some numbered_rubric"
  using suggestion_buttons
    [of alice_state no_text 5 "\<lparr>skillId = JNull, su_status = [], reasoning = []\<rparr>"]
    suggestion_buttons
    [of "fst (propose_suggestion scenario_state (JStr ''a'') NOT_MET ''observed lapse'')" no_text 5
        "\<lparr>skillId = JStr ''a'', su_status = ''not_met'', reasoning = ''observed lapse''\<rparr>"]
    suggestion_buttons
    [of "fst (propose_suggestion (alice_state\<lparr>rubric := numbered_rubric\<rparr>) (JFloat 1) MET [])"
        no_text 5 "\<lparr>skillId = JFloat 1, su_status = ''met'', reasoning = []\<rparr>"]
    suggestion_buttons
    [of "fst (propose_suggestion (alice_state\<lparr>rubric := numbered_rubric\<rparr>) JNaN MET [])"
        no_text 5 "\<lparr>skillId = JNaN, su_status = ''met'', reasoning = []\<rparr>"]
  by (simp add: accept_suggestion_def reject_suggestion_def propose_suggestion_def
      scenario_state_def scenario_rubric_def scenario_transcript_def numbered_rubric_def
      alice_state_eq initial_state_def NOT_MET_def MET_def py_eq_def py_format_def)

text \<open>
  Claim C9. The button "Mark all pending as not met" changes the rubric only. The rubric
  keeps its length; an item whose status is \<^verbatim>\<open>pending\<close> becomes the same item with the
  status \<^verbatim>\<open>not_met\<close>, and every other item, so every item that is \<^verbatim>\<open>met\<close> or
  \<^verbatim>\<open>not_met\<close>, stays as it was.
\<close>

theorem pending_resolved:
  "fst (mark_all_pending s) = s\<lparr>rubric := rubric (fst (mark_all_pending s))\<rparr>
   \<and> length (rubric (fst (mark_all_pending s))) = length (rubric s)
   \<and> (\<forall>i<length (rubric s).
        (status (rubric s ! i) = JStr PENDING \<longrightarrow>
           rubric (fst (mark_all_pending s)) ! i = (rubric s ! i)\<lparr>status := JStr NOT_MET\<rparr>)
      \<and> (status (rubric s ! i) \<noteq> JStr PENDING \<longrightarrow>
           rubric (fst (mark_all_pending s)) ! i = rubric s ! i))"
  by (simp add: mark_all_pending_def resolve_pending_map)

theorem pending_resolved_witness:
  "(0::nat) < length (rubric (alice_state\<lparr>rubric := mixed_rubric\<rparr>))
   \<and> status (rubric (alice_state\<lparr>rubric := mixed_rubric\<rparr>) ! 0) = JStr PENDING
   \<and> status (rubric (alice_state\<lparr>rubric := mixed_rubric\<rparr>) ! 1) \<noteq> JStr PENDING
   \<and> rubric (fst (mark_all_pending (alice_state\<lparr>rubric := mixed_rubric\<rparr>))) =
       [\<lparr>id' = JStr ''a'', skill = JStr ''Hand hygiene'', status = JStr ''not_met''\<rparr>,
        \<lparr>id' = JStr ''b'', skill = JStr ''Consent'', status = JStr ''met''\<rparr>,
        \<lparr>id' = JStr ''c'', skill = JStr ''Privacy'', status = JStr ''not_met''\<rparr>]"
  using pending_resolved [of "alice_state\<lparr>rubric := mixed_rubric\<rparr>"]
  by (simp add: mark_all_pending_def mixed_rubric_def PENDING_def NOT_MET_def)

end
